theory Spec2Isabelle
  imports Complex_Main
begin

section \<open>Values, actuator calls and events\<close>

text \<open>
  The node (class \<open>AutostepNode\<close> of \<open>nodes/autostep_node.py\<close>) receives decoded JSON
  argument dictionaries. The values the handlers look at are numbers, strings, booleans and
  arrays of numbers. Python floats are modelled as reals.
\<close>

datatype jvalue = JNum real | JStr string | JBool bool | JArr "real list"

type_synonym args = "string \<rightharpoonup> jvalue"

text \<open>Exceptions that leave a handler. A \<open>KeyError\<close> is always caught where it arises.\<close>

datatype py_error = IndexError | ValueError

text \<open>
  Calls into the \<open>Autostep\<close> driver object, one constructor per method the node calls,
  under the method's own name. \<open>set_move_mode_max\<close> and \<open>set_move_mode_jog\<close> are the names
  \<open>on_set_move_mode_command\<close> uses; \<open>set_move_mode_to_max\<close> and \<open>set_move_mode_to_jog\<close>
  the names used everywhere else.
\<close>

datatype actuator_call =
    A_set_step_mode string
  | A_set_fullstep_per_rev nat
  | A_set_gear_ratio real
  | A_enable
  | A_release
  | A_run jvalue
  | A_move_to jvalue
  | A_soft_stop
  | A_is_busy
  | A_get_position
  | A_set_position jvalue
  | A_set_move_mode_max
  | A_set_move_mode_jog
  | A_set_move_mode_to_max
  | A_set_move_mode_to_jog
  | A_print_params
  | A_get_params
  | A_run_with_feedback real

text \<open>
  A \<open>scipy.interpolate.interp1d\<close> object of kind \<open>linear\<close> is its two sample arrays.
\<close>

record interp1d =
  interp_x :: "real list"
  interp_y :: "real list"

text \<open>
  The closures handed to a motion thread. A thread is the target method of the driver
  together with the argument list \<open>thread_args\<close> the handler built for it.
\<close>

datatype data_callback = Sinusoid_motion_data_callback | Trajectory_motion_data_callback

datatype done_callback = Motion_done_callback

datatype thread =
    Sinusoid_thread "(string \<times> jvalue) list" data_callback done_callback
  | Run_trajectory_thread real interp1d interp1d bool data_callback

text \<open>
  The attributes of the node that the commands, the tracking callback and the motion
  threads share.
\<close>

datatype field =
    F_enabled_flag
  | F_tracking_mode_enabled
  | F_running_motion_cmd
  | F_is_first
  | F_first_update_t
  | F_last_update_t
  | F_position
  | F_velocity
  | F_position_start

text \<open>
  What one thread of the node does, in program order: entering and leaving
  \<open>with self.lock\<close>, reading and writing a shared attribute, calling the driver,
  publishing a \<open>MotionData\<close> message (elapsed time, position, setpoint, sensor) and
  starting a thread.
\<close>

datatype event =
    Lock_acquire
  | Lock_release
  | Read field
  | Write field
  | Actuator actuator_call
  | Publish real real real real
  | Thread_start thread

record node_state =
  enabled_flag :: bool
  have_sensor :: bool
  tracking_mode_enabled :: bool
  running_motion_cmd :: bool
  tracking_mode_is_first :: bool
  tracking_mode_first_update_t :: real
  tracking_mode_last_update_t :: real
  tracking_mode_position :: real
  tracking_mode_velocity :: real
  tracking_mode_position_start :: real
  log :: "event list"

text \<open>
  What the surroundings answer during one invocation: the clock (\<open>rospy.get_time()\<close>),
  the driver's return values, and the driver's class constant \<open>Autostep.TrajectoryDt\<close>.
\<close>

record env =
  get_time :: real
  dev_position :: real
  dev_is_busy :: bool
  dev_params :: jvalue
  dev_feedback :: "real \<Rightarrow> real"
  trajectory_dt :: real

text \<open>The response dictionary: \<open>success\<close>, \<open>message\<close> and the optional extra entries.\<close>

record resp =
  success :: bool
  message :: string
  extra :: "(string \<times> jvalue) list"

record tracking_data =
  msg_position :: real
  msg_velocity :: real

definition emit :: "event list \<Rightarrow> node_state \<Rightarrow> node_state" where
  "emit es st = st\<lparr>log := log st @ es\<rparr>"

definition new_events :: "node_state \<Rightarrow> node_state \<Rightarrow> event list" where
  "new_events st st' = drop (length (log st)) (log st')"

definition ok_resp :: resp where
  "ok_resp = \<lparr>success = True, message = [], extra = []\<rparr>"

definition fail_resp :: "string \<Rightarrow> resp" where
  "fail_resp m = \<lparr>success = False, message = m, extra = []\<rparr>"

text \<open>\<open>self.tracking_mode_gain = 5.0\<close> is assigned in \<open>__init__\<close> and nowhere else.\<close>

definition tracking_mode_gain :: real where
  "tracking_mode_gain = 5"

section \<open>Start-up\<close>

text \<open>
  \<open>__init__\<close>: the scratch attributes, \<open>initialize()\<close>, \<open>enable()\<close>, and, after the
  service and the lock exist, the two flags.
\<close>

definition node_init :: node_state where
  "node_init =
    \<lparr>enabled_flag = True, have_sensor = False, tracking_mode_enabled = False,
     running_motion_cmd = False, tracking_mode_is_first = False,
     tracking_mode_first_update_t = 0, tracking_mode_last_update_t = 0,
     tracking_mode_position = 0, tracking_mode_velocity = 0,
     tracking_mode_position_start = 0,
     log = [Write F_is_first, Write F_first_update_t, Write F_last_update_t,
            Write F_position, Write F_velocity, Write F_position_start,
            Actuator (A_set_step_mode ''STEP_FS_128''), Actuator (A_set_fullstep_per_rev 200),
            Actuator (A_set_gear_ratio 2), Actuator A_set_move_mode_to_jog,
            Actuator A_enable, Write F_enabled_flag,
            Write F_tracking_mode_enabled, Write F_running_motion_cmd]\<rparr>"

section \<open>Command handlers\<close>

type_synonym handler = "args \<Rightarrow> env \<Rightarrow> node_state \<Rightarrow> (py_error + resp) \<times> node_state"

definition on_run_command :: handler where
  "on_run_command args_dict e st =
    (case args_dict ''velocity'' of
       Some velocity \<Rightarrow> (Inr ok_resp, emit [Actuator (A_run velocity)] st)
     | None \<Rightarrow> (Inr (fail_resp ''velocity argument missing''), st))"

definition enable :: "node_state \<Rightarrow> node_state" where
  "enable st = emit [Actuator A_enable, Write F_enabled_flag] (st\<lparr>enabled_flag := True\<rparr>)"

definition release :: "node_state \<Rightarrow> node_state" where
  "release st = emit [Actuator A_release, Write F_enabled_flag] (st\<lparr>enabled_flag := False\<rparr>)"

definition on_enable_command :: handler where
  "on_enable_command args_dict e st = (Inr ok_resp, enable st)"

definition on_release_command :: handler where
  "on_release_command args_dict e st = (Inr ok_resp, release st)"

definition on_move_to_command :: handler where
  "on_move_to_command args_dict e st =
    (case args_dict ''position'' of
       Some pos \<Rightarrow> (Inr ok_resp, emit [Actuator (A_move_to pos)] st)
     | None \<Rightarrow> (Inr (fail_resp ''position argument missing''), st))"

definition on_soft_stop_command :: handler where
  "on_soft_stop_command args_dict e st = (Inr ok_resp, emit [Actuator A_soft_stop] st)"

definition on_is_busy_command :: handler where
  "on_is_busy_command args_dict e st =
    (Inr \<lparr>success = True, message = [], extra = [(''is_busy'', JBool (dev_is_busy e))]\<rparr>,
     emit [Actuator A_is_busy] st)"

definition on_get_position_command :: handler where
  "on_get_position_command args_dict e st =
    (Inr \<lparr>success = True, message = [], extra = [(''position'', JNum (dev_position e))]\<rparr>,
     emit [Actuator A_get_position] st)"

definition on_set_position_command :: handler where
  "on_set_position_command args_dict e st =
    (case args_dict ''position'' of
       Some pos \<Rightarrow> (Inr ok_resp, emit [Actuator (A_set_position pos)] st)
     | None \<Rightarrow> (Inr (fail_resp ''position argument missing''), st))"

text \<open>The message \<^verbatim>\<open>mode must be 'max' or 'jog'\<close>; \<open>CHR 0x27\<close> is the single quote.\<close>

definition mode_must_be :: string where
  "mode_must_be =
    ''mode must be '' @ CHR 0x27 # ''max'' @ CHR 0x27 # '' or '' @ CHR 0x27 # ''jog'' @ [CHR 0x27]"

text \<open>
  \<open>on_set_move_mode_command\<close>: \<open>ok\<close> starts as \<open>False\<close> and the \<open>try\<close> block does not
  assign it, so the model carries \<open>ok\<close> as the source does and tests it.
\<close>

definition on_set_move_mode_command :: handler where
  "on_set_move_mode_command args_dict e st =
    (let ok = False;
         (mode, resp_dict) =
           (case args_dict ''mode'' of
              Some m \<Rightarrow> (m, ok_resp)
            | None \<Rightarrow> (JStr [], fail_resp ''mode argument missing''))
     in if ok then
          (if mode = JStr ''max'' then (Inr resp_dict, emit [Actuator A_set_move_mode_max] st)
           else if mode = JStr ''jog'' then (Inr resp_dict, emit [Actuator A_set_move_mode_jog] st)
           else (Inr (fail_resp mode_must_be), st))
        else (Inr resp_dict, st))"

definition on_print_params_command :: handler where
  "on_print_params_command args_dict e st = (Inr ok_resp, emit [Actuator A_print_params] st)"

definition on_get_params_command :: handler where
  "on_get_params_command args_dict e st =
    (Inr \<lparr>success = True, message = [], extra = [(''params'', dev_params e)]\<rparr>,
     emit [Actuator A_get_params] st)"

section \<open>Motion commands\<close>

text \<open>
  The completion closure of both motion handlers: \<open>with self.lock: self.running_motion_cmd = False\<close>.
\<close>

definition motion_done_callback :: "node_state \<Rightarrow> node_state" where
  "motion_done_callback st =
    emit [Lock_acquire, Write F_running_motion_cmd, Lock_release] (st\<lparr>running_motion_cmd := False\<rparr>)"

text \<open>The telemetry closures of \<open>on_sinusoid_command\<close> and \<open>on_run_trajectory_command\<close>.\<close>

definition sinusoid_motion_data_callback ::
    "real \<Rightarrow> real \<Rightarrow> real \<Rightarrow> real \<Rightarrow> node_state \<Rightarrow> node_state" where
  "sinusoid_motion_data_callback elapsed_time pos setpoint sensor st =
    (let sensor = (if \<not> have_sensor st then 0 else sensor)
     in emit [Publish elapsed_time pos setpoint sensor] st)"

definition trajectory_motion_data_callback ::
    "real \<Rightarrow> real \<Rightarrow> real \<Rightarrow> node_state \<Rightarrow> node_state" where
  "trajectory_motion_data_callback elapsed_time pos setpoint st =
    emit [Publish elapsed_time pos setpoint 0] st"

definition param_keys :: "string list" where
  "param_keys = [''amplitude'', ''period'', ''phase'', ''offset'', ''num_cycle'']"

text \<open>
  One round of the \<open>for key in param_keys\<close> loop of \<open>on_sinusoid_command\<close>, on the
  triple (\<open>ok\<close>, \<open>param\<close>, \<open>resp_dict['message']\<close>).
\<close>

definition sinusoid_key ::
    "args \<Rightarrow> string \<Rightarrow> bool \<times> (string \<times> jvalue) list \<times> string
      \<Rightarrow> bool \<times> (string \<times> jvalue) list \<times> string" where
  "sinusoid_key args_dict key acc =
    (case acc of (ok, param, msg) \<Rightarrow>
      (case args_dict key of
         Some v \<Rightarrow> (ok, param @ [(key, v)], msg)
       | None \<Rightarrow>
           (False, param,
            (if length msg > 0 then msg @ '', '' else msg) @ key @ '' argument missing'')))"

definition on_sinusoid_command :: handler where
  "on_sinusoid_command args_dict e st =
    (case fold (sinusoid_key args_dict) param_keys (True, [], []) of (ok, param, msg) \<Rightarrow>
      if ok then
        (let motion_thread =
               Sinusoid_thread param Sinusoid_motion_data_callback Motion_done_callback;
             st = emit [Lock_acquire, Write F_running_motion_cmd, Lock_release]
                    (st\<lparr>running_motion_cmd := True\<rparr>);
             st = emit [Thread_start motion_thread] st
         in (Inr \<lparr>success = True, message = msg, extra = []\<rparr>, st))
      else (Inr \<lparr>success = False, message = msg, extra = []\<rparr>, st))"

subsection \<open>Trajectory interpolation\<close>

text \<open>
  \<open>scipy.array(position)\<close> followed by the slices \<open>position[1:]\<close>: an array of numbers
  is taken as it is; a scalar becomes a zero-dimensional array, on which the slice raises
  \<open>IndexError\<close>.
\<close>

definition scipy_array :: "jvalue \<Rightarrow> py_error + real list" where
  "scipy_array v = (case v of JArr ps \<Rightarrow> Inr ps | _ \<Rightarrow> Inl IndexError)"

text \<open>
  \<open>velocity = scipy.zeros(position.shape); velocity[1:] = (position[1:] - position[:-1])/dt\<close>
\<close>

definition first_differences :: "real \<Rightarrow> real list \<Rightarrow> real list" where
  "first_differences dt pos =
    (if pos = [] then []
     else 0 # map2 (\<lambda>a b. (a - b) / dt) (tl pos) (butlast pos))"

text \<open>\<open>t = dt*scipy.arange(0, position.shape[0])\<close>\<close>

definition time_axis :: "real \<Rightarrow> nat \<Rightarrow> real list" where
  "time_axis dt n = map (\<lambda>i. dt * real i) [0..<n]"

text \<open>\<open>t[-1]\<close>, which raises \<open>IndexError\<close> on an empty array.\<close>

definition last_entry :: "real list \<Rightarrow> py_error + real" where
  "last_entry t = (if t = [] then Inl IndexError else Inr (last t))"

text \<open>
  The library's \<open>interp1d(x, y, kind='linear')\<close>, from its documentation and the
  release the node's Python 2 runs with: the arrays must have equal length and at least
  two entries (\<open>ValueError\<close> otherwise); the samples are sorted by \<open>x\<close>. A call outside
  \<open>[x[0], x[-1]]\<close> raises \<open>ValueError\<close> (\<open>bounds_error\<close>); inside, the index is
  \<open>searchsorted(x, x_new)\<close> clipped to \<open>[1, len(x) - 1]\<close> and the value is
  \<open>slope*(x_new - x_lo) + y_lo\<close>.
\<close>

definition interp1d_init :: "real list \<Rightarrow> real list \<Rightarrow> py_error + interp1d" where
  "interp1d_init x y =
    (if length x \<noteq> length y then Inl ValueError
     else if length x < 2 then Inl ValueError
     else (let ps = sort_key fst (zip x y)
           in Inr \<lparr>interp_x = map fst ps, interp_y = map snd ps\<rparr>))"

definition searchsorted :: "real list \<Rightarrow> real \<Rightarrow> nat" where
  "searchsorted x v = length (takeWhile (\<lambda>a. a < v) x)"

definition interp1d_call :: "interp1d \<Rightarrow> real \<Rightarrow> py_error + real" where
  "interp1d_call f x_new =
    (let x = interp_x f; y = interp_y f
     in if x = [] \<or> x_new < hd x \<or> last x < x_new then Inl ValueError
        else (let hi = min (max (searchsorted x x_new) 1) (length x - 1);
                  lo = hi - 1;
                  slope = (y ! hi - y ! lo) / (x ! hi - x ! lo)
              in Inr (slope * (x_new - x ! lo) + y ! lo)))"

text \<open>
  The lines of \<open>on_run_trajectory_command\<close> between the argument lookup and the closures:
  they compute \<open>t_done\<close>, \<open>position_func\<close> and \<open>velocity_func\<close>, or raise.
\<close>

definition trajectory_funcs :: "real \<Rightarrow> jvalue \<Rightarrow> py_error + (real \<times> interp1d \<times> interp1d)" where
  "trajectory_funcs dt pv =
    (case scipy_array pv of
       Inl err \<Rightarrow> Inl err
     | Inr pos \<Rightarrow>
        (let vel = first_differences dt pos;
             t = time_axis dt (length pos)
         in case last_entry t of
              Inl err \<Rightarrow> Inl err
            | Inr t_done \<Rightarrow>
               (case interp1d_init t pos of
                  Inl err \<Rightarrow> Inl err
                | Inr position_func \<Rightarrow>
                   (case interp1d_init t vel of
                      Inl err \<Rightarrow> Inl err
                    | Inr velocity_func \<Rightarrow> Inr (t_done, position_func, velocity_func)))))"

text \<open>
  \<open>on_run_trajectory_command\<close>. The key it looks up is \<open>position\<close>. \<open>thread_args\<close> has
  five entries: the closure \<open>motion_done_callback\<close> is defined and not passed.
\<close>

definition on_run_trajectory_command :: handler where
  "on_run_trajectory_command args_dict e st =
    (case args_dict ''position'' of
       None \<Rightarrow> (Inr (fail_resp ''position (array) argument missing''), st)
     | Some pv \<Rightarrow>
        (case trajectory_funcs (trajectory_dt e) pv of
           Inl err \<Rightarrow> (Inl err, st)
         | Inr (t_done, position_func, velocity_func) \<Rightarrow>
            (let motion_thread =
                   Run_trajectory_thread t_done position_func velocity_func False
                     Trajectory_motion_data_callback;
                 st = emit [Lock_acquire, Write F_running_motion_cmd, Lock_release]
                        (st\<lparr>running_motion_cmd := True\<rparr>);
                 st = emit [Thread_start motion_thread] st
             in (Inr ok_resp, st))))"

text \<open>
  The driver's \<open>sinusoid\<close> and \<open>run_trajectory\<close> run in the started thread. The only way
  the end of a profile reaches the node is the completion closure in the thread's
  arguments, when there is one.
\<close>

fun thread_done_callback :: "thread \<Rightarrow> done_callback option" where
  "thread_done_callback (Sinusoid_thread param data_cb done_cb) = Some done_cb"
| "thread_done_callback (Run_trajectory_thread t_done pf vf disp data_cb) = None"

definition thread_finished :: "thread \<Rightarrow> node_state \<Rightarrow> node_state" where
  "thread_finished th st =
    (case thread_done_callback th of
       Some Motion_done_callback \<Rightarrow> motion_done_callback st
     | None \<Rightarrow> st)"

section \<open>Tracking mode\<close>

definition on_enable_tracking_mode_command :: handler where
  "on_enable_tracking_mode_command args_dict e st =
    (let st = emit [Lock_acquire] st;
         st = emit [Actuator (A_run (JNum 0))] st;
         st = emit [Actuator A_set_move_mode_to_max] st;
         st = emit [Write F_tracking_mode_enabled] (st\<lparr>tracking_mode_enabled := True\<rparr>);
         st = emit [Write F_is_first] (st\<lparr>tracking_mode_is_first := True\<rparr>);
         st = emit [Lock_release] st
     in (Inr ok_resp, st))"

definition on_disable_tracking_mode_command :: handler where
  "on_disable_tracking_mode_command args_dict e st =
    (let st = emit [Lock_acquire] st;
         st = emit [Write F_tracking_mode_enabled] (st\<lparr>tracking_mode_enabled := False\<rparr>);
         st = emit [Actuator A_set_move_mode_to_jog] st;
         st = emit [Actuator (A_run (JNum 0))] st;
         st = emit [Lock_release] st
     in (Inr ok_resp, st))"

text \<open>
  \<open>on_tracking_data_callback\<close>, one binding per source line. The local copy
  \<open>tracking_mode_enabled\<close> taken under the lock is not used: the test reads the attribute
  again.
\<close>

definition tracking_first :: "env \<Rightarrow> node_state \<Rightarrow> real \<times> node_state" where
  "tracking_first e st =
    (let st = emit [Write F_is_first] (st\<lparr>tracking_mode_is_first := False\<rparr>);
         st = emit [Write F_first_update_t] (st\<lparr>tracking_mode_first_update_t := get_time e\<rparr>);
         st = emit [Read F_first_update_t, Write F_last_update_t]
                (st\<lparr>tracking_mode_last_update_t := tracking_mode_first_update_t st\<rparr>);
         st = emit [Actuator A_get_position, Write F_position_start]
                (st\<lparr>tracking_mode_position_start := dev_position e\<rparr>);
         st = emit [Read F_position_start, Write F_position]
                (st\<lparr>tracking_mode_position := tracking_mode_position_start st\<rparr>);
         predicted_position = tracking_mode_position st;
         st = emit [Read F_position] st;
         st = emit [Write F_velocity] (st\<lparr>tracking_mode_velocity := 0\<rparr>)
     in (predicted_position, st))"

definition tracking_update :: "tracking_data \<Rightarrow> env \<Rightarrow> node_state \<Rightarrow> real \<times> node_state" where
  "tracking_update msg e st =
    (let current_time = get_time e;
         update_dt = current_time - tracking_mode_last_update_t st;
         st = emit [Read F_last_update_t] st;
         predicted_position = tracking_mode_position st + update_dt * tracking_mode_velocity st;
         st = emit [Read F_position, Read F_velocity] st;
         position_error =
           msg_position msg - (predicted_position - tracking_mode_position_start st);
         st = emit [Read F_position_start] st;
         new_velocity = tracking_mode_gain * position_error + msg_velocity msg;
         true_position = dev_feedback e new_velocity;
         st = emit [Actuator (A_run_with_feedback new_velocity)] st;
         st = emit [Write F_position] (st\<lparr>tracking_mode_position := true_position\<rparr>);
         st = emit [Write F_velocity] (st\<lparr>tracking_mode_velocity := new_velocity\<rparr>);
         st = emit [Write F_last_update_t] (st\<lparr>tracking_mode_last_update_t := current_time\<rparr>)
     in (predicted_position, st))"

definition on_tracking_data_callback :: "tracking_data \<Rightarrow> env \<Rightarrow> node_state \<Rightarrow> node_state" where
  "on_tracking_data_callback msg e st =
    (let st = emit [Lock_acquire, Read F_tracking_mode_enabled, Lock_release] st;
         enabled_now = tracking_mode_enabled st;
         st = emit [Read F_tracking_mode_enabled] st
     in if enabled_now then
          (let first_now = tracking_mode_is_first st;
               st = emit [Read F_is_first] st;
               (predicted_position, st) =
                 (if first_now then tracking_first e st else tracking_update msg e st);
               elapsed_time = tracking_mode_last_update_t st - tracking_mode_first_update_t st;
               st = emit [Read F_last_update_t, Read F_first_update_t] st;
               st = emit [Read F_position,
                          Publish elapsed_time (tracking_mode_position st) predicted_position 0] st
           in st)
        else st)"

section \<open>Dispatch\<close>

definition command_srv_table :: "string \<rightharpoonup> handler" where
  "command_srv_table =
    [''run'' \<mapsto> on_run_command,
     ''enable'' \<mapsto> on_enable_command,
     ''release'' \<mapsto> on_release_command,
     ''is_busy'' \<mapsto> on_is_busy_command,
     ''move_to'' \<mapsto> on_move_to_command,
     ''soft_stop'' \<mapsto> on_soft_stop_command,
     ''set_position'' \<mapsto> on_set_position_command,
     ''get_position'' \<mapsto> on_get_position_command,
     ''set_move_mode'' \<mapsto> on_set_move_mode_command,
     ''get_params'' \<mapsto> on_get_params_command,
     ''print_params'' \<mapsto> on_print_params_command,
     ''sinusoid'' \<mapsto> on_sinusoid_command,
     ''run_trajectory'' \<mapsto> on_run_trajectory_command,
     ''enable_tracking_mode'' \<mapsto> on_enable_tracking_mode_command,
     ''disable_tracking_mode'' \<mapsto> on_disable_tracking_mode_command]"

text \<open>
  \<open>command_srv_callback\<close>, from the decoded \<open>args_dict\<close> on. Only the table lookup is
  inside a \<open>try\<close>: an exception of the handler leaves the callback.
\<close>

definition command_srv_callback ::
    "string \<Rightarrow> args \<Rightarrow> env \<Rightarrow> node_state \<Rightarrow> (py_error + resp) \<times> node_state" where
  "command_srv_callback command args_dict e st =
    (case command_srv_table command of
       None \<Rightarrow> (Inr (fail_resp ''unknown command''), st)
     | Some command_method \<Rightarrow> command_method args_dict e st)"

section \<open>Reading the event log\<close>

fun actuator_calls :: "event list \<Rightarrow> actuator_call list" where
  "actuator_calls [] = []"
| "actuator_calls (Actuator c # es) = c # actuator_calls es"
| "actuator_calls (ev # es) = actuator_calls es"

fun threads_started :: "event list \<Rightarrow> thread list" where
  "threads_started [] = []"
| "threads_started (Thread_start th # es) = th # threads_started es"
| "threads_started (ev # es) = threads_started es"

fun published :: "event list \<Rightarrow> (real \<times> real \<times> real \<times> real) list" where
  "published [] = []"
| "published (Publish a b c d # es) = (a, b, c, d) # published es"
| "published (ev # es) = published es"

text \<open>
  The shared attributes read or written while \<open>self.lock\<close> is not held, and the driver
  calls made while it is held; the flag says whether the lock is held at the start.
\<close>

fun unlocked_accesses :: "bool \<Rightarrow> event list \<Rightarrow> field list" where
  "unlocked_accesses held [] = []"
| "unlocked_accesses held (Lock_acquire # es) = unlocked_accesses True es"
| "unlocked_accesses held (Lock_release # es) = unlocked_accesses False es"
| "unlocked_accesses held (Read f # es) =
     (if held then unlocked_accesses held es else f # unlocked_accesses held es)"
| "unlocked_accesses held (Write f # es) =
     (if held then unlocked_accesses held es else f # unlocked_accesses held es)"
| "unlocked_accesses held (ev # es) = unlocked_accesses held es"

fun locked_calls :: "bool \<Rightarrow> event list \<Rightarrow> actuator_call list" where
  "locked_calls held [] = []"
| "locked_calls held (Lock_acquire # es) = locked_calls True es"
| "locked_calls held (Lock_release # es) = locked_calls False es"
| "locked_calls held (Actuator c # es) =
     (if held then c # locked_calls held es else locked_calls held es)"
| "locked_calls held (ev # es) = locked_calls held es"

text \<open>The number of times a lock is acquired while one is already held.\<close>

fun nested_acquires :: "bool \<Rightarrow> event list \<Rightarrow> nat" where
  "nested_acquires held [] = 0"
| "nested_acquires held (Lock_acquire # es) =
     (if held then Suc (nested_acquires True es) else nested_acquires True es)"
| "nested_acquires held (Lock_release # es) = nested_acquires False es"
| "nested_acquires held (ev # es) = nested_acquires held es"

text \<open>
  The lock discipline the handlers of the commands keep, on the events of one dispatch of
  the command \<open>c\<close>: outside the lock \<open>enable\<close> and \<open>release\<close> access
  \<open>enabled_flag\<close>, once, and no command accesses any other shared attribute; the driver
  is called inside the lock by the two tracking-mode commands and by no other; the lock is
  never acquired while it is held.
\<close>

definition lock_discipline :: "string \<Rightarrow> event list \<Rightarrow> bool" where
  "lock_discipline c evs =
    (unlocked_accesses False evs =
       (if c = ''enable'' \<or> c = ''release'' then [F_enabled_flag] else []) \<and>
     (locked_calls False evs \<noteq> []) =
       (c = ''enable_tracking_mode'' \<or> c = ''disable_tracking_mode'') \<and>
     nested_acquires False evs = 0)"

text \<open>The comma-joined list of \<open><key> argument missing\<close> messages.\<close>

fun comma_join :: "string list \<Rightarrow> string" where
  "comma_join [] = []"
| "comma_join [m] = m"
| "comma_join (m # ms) = m @ '', '' @ comma_join ms"

definition missing_message :: "string list \<Rightarrow> string" where
  "missing_message ks = comma_join (map (\<lambda>k. k @ '' argument missing'') ks)"

section \<open>Concrete inputs\<close>

definition example_env :: env where
  "example_env =
    \<lparr>get_time = 10, dev_position = 3, dev_is_busy = False, dev_params = JStr [],
     dev_feedback = (\<lambda>v. 4), trajectory_dt = 1\<rparr>"

definition sinusoid_args :: args where
  "sinusoid_args =
    [''amplitude'' \<mapsto> JNum 1, ''period'' \<mapsto> JNum 2, ''phase'' \<mapsto> JNum 0,
     ''offset'' \<mapsto> JNum 0, ''num_cycle'' \<mapsto> JNum 3]"

text \<open>The node after start-up and one accepted \<open>sinusoid\<close> command.\<close>

definition running_state :: node_state where
  "running_state = snd (command_srv_callback ''sinusoid'' sinusoid_args example_env node_init)"

text \<open>
  The message the loop of \<open>on_sinusoid_command\<close> holds after further missing keys, when it
  held \<open>msg\<close> before them.
\<close>

definition join_after :: "string \<Rightarrow> string list \<Rightarrow> string" where
  "join_after msg ms =
    (if ms = [] then msg else if msg = [] then comma_join ms else msg @ '', '' @ comma_join ms)"

text \<open>Tracking sessions: after \<open>enable_tracking_mode\<close>, after one sample, after two.\<close>

definition tracking_state :: node_state where
  "tracking_state =
    snd (command_srv_callback ''enable_tracking_mode'' Map.empty example_env node_init)"

definition example_sample :: tracking_data where
  "example_sample = \<lparr>msg_position = 0, msg_velocity = 0\<rparr>"

definition later_env :: env where
  "later_env = example_env\<lparr>get_time := 12\<rparr>"

definition tracking_state2 :: node_state where
  "tracking_state2 = on_tracking_data_callback example_sample example_env tracking_state"

definition tracking_state3 :: node_state where
  "tracking_state3 =
    on_tracking_data_callback \<lparr>msg_position = 1, msg_velocity = 2\<rparr> later_env tracking_state2"

definition last_env :: env where
  "last_env = example_env\<lparr>get_time := 13\<rparr>"

section \<open>Dispatch and log lemmas\<close>

lemmas dispatch_defs = command_srv_callback_def command_srv_table_def

lemma dispatch:
  "command_srv_callback ''run'' = on_run_command"
  "command_srv_callback ''enable'' = on_enable_command"
  "command_srv_callback ''release'' = on_release_command"
  "command_srv_callback ''is_busy'' = on_is_busy_command"
  "command_srv_callback ''move_to'' = on_move_to_command"
  "command_srv_callback ''soft_stop'' = on_soft_stop_command"
  "command_srv_callback ''set_position'' = on_set_position_command"
  "command_srv_callback ''get_position'' = on_get_position_command"
  "command_srv_callback ''set_move_mode'' = on_set_move_mode_command"
  "command_srv_callback ''get_params'' = on_get_params_command"
  "command_srv_callback ''print_params'' = on_print_params_command"
  "command_srv_callback ''sinusoid'' = on_sinusoid_command"
  "command_srv_callback ''run_trajectory'' = on_run_trajectory_command"
  "command_srv_callback ''enable_tracking_mode'' = on_enable_tracking_mode_command"
  "command_srv_callback ''disable_tracking_mode'' = on_disable_tracking_mode_command"
  by (simp_all add: dispatch_defs fun_eq_iff)

lemma new_events_same [simp]: "new_events st st = []"
  by (simp add: new_events_def)

lemma new_events_emit [simp]: "new_events st (emit es st) = es"
  by (simp add: new_events_def emit_def)

section \<open>Motion commands and the running flag\<close>

lemma sinusoid_all_present:
  assumes "args_dict ''amplitude'' = Some a" "args_dict ''period'' = Some p"
    "args_dict ''phase'' = Some ph" "args_dict ''offset'' = Some off"
    "args_dict ''num_cycle'' = Some n"
  shows "fold (sinusoid_key args_dict) param_keys (True, [], []) =
    (True, [(''amplitude'', a), (''period'', p), (''phase'', ph), (''offset'', off),
            (''num_cycle'', n)], [])"
  using assms by (simp add: param_keys_def sinusoid_key_def)

lemma trajectory_funcs_ok:
  assumes "2 \<le> length ps"
  shows "\<exists>t_done pf vf. trajectory_funcs dt (JArr ps) = Inr (t_done, pf, vf)"
  using assms
  by (cases ps) (auto simp add: trajectory_funcs_def scipy_array_def last_entry_def
      interp1d_init_def Let_def time_axis_def first_differences_def)

lemma running_state_running: "running_motion_cmd running_state"
  by (simp add: running_state_def dispatch on_sinusoid_command_def sinusoid_args_def
      param_keys_def sinusoid_key_def emit_def Let_def)

text \<open>
  C1, as the code has it: neither motion handler reads \<open>running_motion_cmd\<close>. A
  \<open>sinusoid\<close> command with its five arguments, and a \<open>run_trajectory\<close> command with an
  array of at least two positions, succeed with an empty message, set the flag and start
  one new thread, in every state of the node and so also while a motion is running.
\<close>

theorem motion_commands_ignore_running_flag:
  assumes "args_dict ''amplitude'' = Some a" "args_dict ''period'' = Some p"
    "args_dict ''phase'' = Some ph" "args_dict ''offset'' = Some off"
    "args_dict ''num_cycle'' = Some n"
    and "args_dict' ''position'' = Some (JArr ps)" "2 \<le> length ps"
  shows "(case command_srv_callback ''sinusoid'' args_dict e st of (r, st') \<Rightarrow>
            r = Inr ok_resp \<and> running_motion_cmd st' \<and>
            threads_started (new_events st st') =
              [Sinusoid_thread
                 [(''amplitude'', a), (''period'', p), (''phase'', ph), (''offset'', off),
                  (''num_cycle'', n)]
                 Sinusoid_motion_data_callback Motion_done_callback]) \<and>
         (case command_srv_callback ''run_trajectory'' args_dict' e st of (r, st') \<Rightarrow>
            r = Inr ok_resp \<and> running_motion_cmd st' \<and>
            length (threads_started (new_events st st')) = 1)"
proof -
  have s: "fold (sinusoid_key args_dict) param_keys (True, [], []) =
    (True, [(''amplitude'', a), (''period'', p), (''phase'', ph), (''offset'', off),
            (''num_cycle'', n)], [])"
    using assms(1-5) by (rule sinusoid_all_present)
  obtain t_done pf vf
    where t: "trajectory_funcs (trajectory_dt e) (JArr ps) = Inr (t_done, pf, vf)"
    using trajectory_funcs_ok [OF assms(7)] by blast
  show ?thesis
    by (simp add: dispatch on_sinusoid_command_def on_run_trajectory_command_def s t assms(6)
        ok_resp_def emit_def new_events_def Let_def)
qed

theorem motion_commands_ignore_running_flag_witness:
  "running_motion_cmd running_state \<and>
   (case command_srv_callback ''sinusoid'' sinusoid_args example_env running_state of (r, st') \<Rightarrow>
      r = Inr ok_resp \<and> running_motion_cmd st' \<and>
      threads_started (new_events running_state st') =
        [Sinusoid_thread
           [(''amplitude'', JNum 1), (''period'', JNum 2), (''phase'', JNum 0),
            (''offset'', JNum 0), (''num_cycle'', JNum 3)]
           Sinusoid_motion_data_callback Motion_done_callback]) \<and>
   (case command_srv_callback ''run_trajectory'' [''position'' \<mapsto> JArr [0, 1, 2]]
           example_env running_state of (r, st') \<Rightarrow>
      r = Inr ok_resp \<and> running_motion_cmd st' \<and>
      length (threads_started (new_events running_state st')) = 1)"
  using motion_commands_ignore_running_flag [where args_dict = sinusoid_args and a = "JNum 1"
      and p = "JNum 2" and ph = "JNum 0" and off = "JNum 0" and n = "JNum 3"
      and args_dict' = "[''position'' \<mapsto> JArr [0, 1, 2]]" and ps = "[0, 1, 2]"
      and e = example_env and st = running_state]
    running_state_running
  by (simp add: sinusoid_args_def)

text \<open>
  C1 as stated fails: with a motion already running, a second \<open>sinusoid\<close> command is not
  answered with \<open>motion already running\<close>; it succeeds and starts a second thread.
\<close>

theorem second_motion_command_accepted:
  "running_motion_cmd running_state \<and>
   fst (command_srv_callback ''sinusoid'' sinusoid_args example_env running_state) \<noteq>
     Inr (fail_resp ''motion already running'') \<and>
   fst (command_srv_callback ''sinusoid'' sinusoid_args example_env running_state) = Inr ok_resp \<and>
   length (threads_started (new_events running_state
      (snd (command_srv_callback ''sinusoid'' sinusoid_args example_env running_state)))) = 1"
  by (simp add: running_state_running dispatch on_sinusoid_command_def sinusoid_args_def
      param_keys_def sinusoid_key_def emit_def new_events_def Let_def ok_resp_def fail_resp_def)

lemma trajectory_funcs_0_1_2:
  "trajectory_funcs 1 (JArr [0, 1, 2]) =
     Inr (2, \<lparr>interp_x = [0, 1, 2], interp_y = [0, 1, 2]\<rparr>,
             \<lparr>interp_x = [0, 1, 2], interp_y = [0, 1, 1]\<rparr>)"
  by (simp add: trajectory_funcs_def scipy_array_def last_entry_def time_axis_def
      interp1d_init_def first_differences_def Let_def upt_rec)

text \<open>
  C2 on the code: an accepted \<open>run_trajectory\<close> command leaves \<open>running_motion_cmd\<close> set
  and starts one thread; that thread was handed no completion closure, so its end changes
  nothing and the flag stays set.
\<close>

theorem run_trajectory_never_clears_running:
  assumes "command_srv_callback ''run_trajectory'' args_dict e st = (Inr r, st')"
    and "success r"
  shows "running_motion_cmd st' \<and>
    (\<exists>th. threads_started (new_events st st') = [th] \<and>
       thread_done_callback th = None \<and>
       thread_finished th st' = st' \<and>
       running_motion_cmd (thread_finished th st'))"
  using assms
  by (auto simp add: dispatch on_run_trajectory_command_def fail_resp_def emit_def new_events_def
      thread_finished_def Let_def split: option.splits sum.splits)

theorem run_trajectory_never_clears_running_witness:
  "(let st' = snd (command_srv_callback ''run_trajectory'' [''position'' \<mapsto> JArr [0, 1, 2]]
                example_env node_init)
    in running_motion_cmd st' \<and>
       (\<exists>th. threads_started (new_events node_init st') = [th] \<and>
          thread_done_callback th = None \<and>
          thread_finished th st' = st' \<and>
          running_motion_cmd (thread_finished th st')))"
proof -
  have "\<exists>st'. command_srv_callback ''run_trajectory'' [''position'' \<mapsto> JArr [0, 1, 2]]
      example_env node_init = (Inr ok_resp, st')"
    by (simp add: dispatch on_run_trajectory_command_def example_env_def trajectory_funcs_0_1_2
        Let_def)
  then obtain st'
    where h: "command_srv_callback ''run_trajectory'' [''position'' \<mapsto> JArr [0, 1, 2]]
      example_env node_init = (Inr ok_resp, st')" by blast
  have s: "success ok_resp" by (simp add: ok_resp_def)
  show ?thesis
    using run_trajectory_never_clears_running [OF h s] h by simp
qed

text \<open>The sinusoid path, for comparison: its thread carries the completion closure.\<close>

lemma sinusoid_completion_clears_running:
  assumes "command_srv_callback ''sinusoid'' args_dict e st = (Inr r, st')"
    and "success r"
  shows "running_motion_cmd st' \<and>
    (\<exists>th. threads_started (new_events st st') = [th] \<and>
       thread_done_callback th = Some Motion_done_callback \<and>
       \<not> running_motion_cmd (thread_finished th st'))"
  using assms
  by (auto simp add: dispatch on_sinusoid_command_def emit_def new_events_def
      thread_finished_def motion_done_callback_def Let_def split: prod.splits if_splits)

section \<open>The move mode\<close>

text \<open>
  C3 on the code: whenever the \<open>mode\<close> argument is present, whatever its value,
  \<open>set_move_mode\<close> answers success with an empty message and changes nothing: no driver
  call is made, for \<open>max\<close> and \<open>jog\<close> as for any other value.
\<close>

theorem set_move_mode_never_applies:
  assumes "args_dict ''mode'' = Some m"
  shows "command_srv_callback ''set_move_mode'' args_dict e st = (Inr ok_resp, st)"
  using assms by (simp add: dispatch on_set_move_mode_command_def)

theorem set_move_mode_never_applies_witness:
  "command_srv_callback ''set_move_mode'' [''mode'' \<mapsto> JStr ''max''] example_env node_init
     = (Inr ok_resp, node_init) \<and>
   command_srv_callback ''set_move_mode'' [''mode'' \<mapsto> JStr ''fast''] example_env node_init
     = (Inr ok_resp, node_init)"
  using set_move_mode_never_applies [of "[''mode'' \<mapsto> JStr ''max'']" "JStr ''max''"
      example_env node_init]
    set_move_mode_never_applies [of "[''mode'' \<mapsto> JStr ''fast'']" "JStr ''fast''"
      example_env node_init]
  by simp

section \<open>Trajectories\<close>

text \<open>
  C5, as the code has it: for the positions \<open>[0, 1, 2]\<close> at \<open>dt = 1\<close> the velocity
  samples are \<open>[0, 1, 1]\<close>, the last time is \<open>2\<close>, \<open>position(0.5) = 0.5\<close>,
  \<open>velocity(0.5) = 0.5\<close>, and the position interpolant returns the samples at
  \<open>0\<close>, \<open>1\<close> and \<open>2\<close>.
\<close>

theorem trajectory_interpolants_0_1_2:
  "(case trajectory_funcs 1 (JArr [0, 1, 2]) of
      Inl err \<Rightarrow> False
    | Inr (t_done, position_func, velocity_func) \<Rightarrow>
        t_done = 2 \<and>
        interp_y velocity_func = [0, 1, 1] \<and>
        interp1d_call position_func (1 / 2) = Inr (1 / 2) \<and>
        interp1d_call velocity_func (1 / 2) = Inr (1 / 2) \<and>
        interp1d_call position_func 0 = Inr 0 \<and>
        interp1d_call position_func 1 = Inr 1 \<and>
        interp1d_call position_func 2 = Inr 2)"
  by (simp add: trajectory_funcs_0_1_2 interp1d_call_def searchsorted_def Let_def)

text \<open>C5 as stated fails: \<open>velocity(0.5)\<close> is not \<open>1.0\<close>.\<close>

theorem velocity_at_half_is_not_one:
  "(case trajectory_funcs 1 (JArr [0, 1, 2]) of
      Inl err \<Rightarrow> False
    | Inr (t_done, position_func, velocity_func) \<Rightarrow>
        interp1d_call velocity_func (1 / 2) \<noteq> Inr 1)"
  by (simp add: trajectory_funcs_0_1_2 interp1d_call_def searchsorted_def Let_def)

text \<open>
  C8, as the code has it: a \<open>run_trajectory\<close> command whose array has fewer than two
  positions starts no motion and changes nothing, and the handler raises: \<open>IndexError\<close>
  for the empty array, \<open>ValueError\<close> for a single position. The dispatcher does not
  catch it.
\<close>

theorem run_trajectory_short_raises:
  assumes "args_dict ''position'' = Some (JArr ps)" "length ps < 2"
  shows "command_srv_callback ''run_trajectory'' args_dict e st =
           (Inl (if ps = [] then IndexError else ValueError), st)"
proof (cases ps)
  case Nil
  then show ?thesis using assms
    by (simp add: dispatch on_run_trajectory_command_def trajectory_funcs_def scipy_array_def
        last_entry_def time_axis_def Let_def)
next
  case (Cons p qs)
  then have "qs = []" using assms by simp
  then show ?thesis using assms Cons
    by (simp add: dispatch on_run_trajectory_command_def trajectory_funcs_def scipy_array_def
        last_entry_def time_axis_def interp1d_init_def Let_def)
qed

theorem run_trajectory_short_raises_witness:
  "command_srv_callback ''run_trajectory'' [''position'' \<mapsto> JArr [7]] example_env node_init =
     (Inl ValueError, node_init)"
  using run_trajectory_short_raises [of "[''position'' \<mapsto> JArr [7]]" "[7]" example_env
      node_init]
  by simp

text \<open>
  C8 as stated fails: for the empty array the dispatch produces no result dictionary;
  \<open>IndexError\<close> leaves the handler and the dispatcher.
\<close>

theorem run_trajectory_empty_raises:
  "command_srv_callback ''run_trajectory'' [''position'' \<mapsto> JArr []] example_env node_init =
     (Inl IndexError, node_init)"
  by (simp add: dispatch on_run_trajectory_command_def trajectory_funcs_def scipy_array_def
        last_entry_def time_axis_def Let_def)

section \<open>Missing arguments\<close>

lemma comma_join_Cons: "comma_join (m # ms) = (if ms = [] then m else m @ '', '' @ comma_join ms)"
  by (cases ms) simp_all

lemma join_after_Cons:
  "m \<noteq> [] \<Longrightarrow> join_after msg (m # ms) = join_after ((if length msg > 0 then msg @ '', '' else msg) @ m) ms"
  by (simp add: join_after_def comma_join_Cons)

lemma sinusoid_fold:
  "\<exists>param'. fold (sinusoid_key args_dict) ks (ok, param, msg) =
     (ok \<and> filter (\<lambda>k. args_dict k = None) ks = [], param',
      join_after msg (map (\<lambda>k. k @ '' argument missing'') (filter (\<lambda>k. args_dict k = None) ks)))"
proof (induction ks arbitrary: ok param msg)
  case Nil
  show ?case by (simp add: join_after_def)
next
  case (Cons k ks)
  show ?case
  proof (cases "args_dict k")
    case None
    then show ?thesis
      using Cons.IH [of False param "(if length msg > 0 then msg @ '', '' else msg) @ k @ '' argument missing''"]
      by (simp add: sinusoid_key_def join_after_Cons)
  next
    case (Some v)
    then show ?thesis
      using Cons.IH [of ok "param @ [(k, v)]" msg]
      by (simp add: sinusoid_key_def)
  qed
qed

lemma sinusoid_missing:
  assumes "filter (\<lambda>k. args_dict k = None) param_keys \<noteq> []"
  shows "on_sinusoid_command args_dict e st =
    (Inr (fail_resp (missing_message (filter (\<lambda>k. args_dict k = None) param_keys))), st)"
proof -
  obtain param' where "fold (sinusoid_key args_dict) param_keys (True, [], []) =
     (True \<and> filter (\<lambda>k. args_dict k = None) param_keys = [], param',
      join_after [] (map (\<lambda>k. k @ '' argument missing'')
        (filter (\<lambda>k. args_dict k = None) param_keys)))"
    using sinusoid_fold [of args_dict param_keys True "[]" "[]"] by blast
  then show ?thesis using assms
    by (simp add: on_sinusoid_command_def join_after_def missing_message_def fail_resp_def)
qed

text \<open>
  C4, as the code has it: a command whose required key is missing answers
  \<open>success = False\<close> with the message \<open><key> argument missing\<close> and leaves the node
  unchanged, so no driver call is made and no thread is started: \<open>velocity\<close> for
  \<open>run\<close>, \<open>position\<close> for \<open>move_to\<close> and \<open>set_position\<close>, \<open>mode\<close> for
  \<open>set_move_mode\<close>; \<open>sinusoid\<close> joins the messages of its missing keys, in the order of
  \<open>param_keys\<close>, with a comma and a space. The key of \<open>run_trajectory\<close> is \<open>position\<close>
  and its message is \<open>position (array) argument missing\<close>.
\<close>

theorem missing_arguments_reported:
  "(args_dict ''velocity'' = None \<longrightarrow>
      command_srv_callback ''run'' args_dict e st =
        (Inr (fail_resp ''velocity argument missing''), st)) \<and>
   (args_dict ''position'' = None \<longrightarrow>
      command_srv_callback ''move_to'' args_dict e st =
        (Inr (fail_resp ''position argument missing''), st) \<and>
      command_srv_callback ''set_position'' args_dict e st =
        (Inr (fail_resp ''position argument missing''), st) \<and>
      command_srv_callback ''run_trajectory'' args_dict e st =
        (Inr (fail_resp ''position (array) argument missing''), st)) \<and>
   (args_dict ''mode'' = None \<longrightarrow>
      command_srv_callback ''set_move_mode'' args_dict e st =
        (Inr (fail_resp ''mode argument missing''), st)) \<and>
   (filter (\<lambda>k. args_dict k = None) param_keys \<noteq> [] \<longrightarrow>
      command_srv_callback ''sinusoid'' args_dict e st =
        (Inr (fail_resp (missing_message (filter (\<lambda>k. args_dict k = None) param_keys))), st)) \<and>
   actuator_calls (new_events st st) = [] \<and> threads_started (new_events st st) = []"
  by (simp add: dispatch sinusoid_missing on_run_command_def on_move_to_command_def
      on_set_position_command_def on_run_trajectory_command_def on_set_move_mode_command_def)

theorem missing_arguments_reported_witness:
  "command_srv_callback ''run'' Map.empty example_env node_init =
     (Inr (fail_resp ''velocity argument missing''), node_init) \<and>
   command_srv_callback ''move_to'' Map.empty example_env node_init =
     (Inr (fail_resp ''position argument missing''), node_init) \<and>
   command_srv_callback ''set_position'' Map.empty example_env node_init =
     (Inr (fail_resp ''position argument missing''), node_init) \<and>
   command_srv_callback ''run_trajectory'' Map.empty example_env node_init =
     (Inr (fail_resp ''position (array) argument missing''), node_init) \<and>
   command_srv_callback ''set_move_mode'' Map.empty example_env node_init =
     (Inr (fail_resp ''mode argument missing''), node_init) \<and>
   command_srv_callback ''sinusoid'' [''period'' \<mapsto> JNum 2, ''offset'' \<mapsto> JNum 0] example_env node_init =
     (Inr (fail_resp
        ''amplitude argument missing, phase argument missing, num_cycle argument missing''),
      node_init)"
  using missing_arguments_reported [of Map.empty example_env node_init]
    missing_arguments_reported [of "[''period'' \<mapsto> JNum 2, ''offset'' \<mapsto> JNum 0]" example_env node_init]
  by (simp add: param_keys_def missing_message_def)

text \<open>
  C4 as stated fails: \<open>run_trajectory\<close> without arguments does not answer
  \<open>positions argument missing\<close>, and with the key \<open>positions\<close> present it still
  reports a missing argument.
\<close>

theorem run_trajectory_key_is_position:
  "command_srv_callback ''run_trajectory'' Map.empty example_env node_init =
     (Inr (fail_resp ''position (array) argument missing''), node_init) \<and>
   ''position (array) argument missing'' \<noteq> ''positions argument missing'' \<and>
   command_srv_callback ''run_trajectory'' [''positions'' \<mapsto> JArr [0, 1, 2]] example_env node_init =
     (Inr (fail_resp ''position (array) argument missing''), node_init)"
  by (simp add: dispatch on_run_trajectory_command_def)

section \<open>The tracking loop\<close>

lemmas tracking_defs = on_tracking_data_callback_def tracking_first_def tracking_update_def

lemma tracking_state_flags:
  "tracking_mode_enabled tracking_state \<and> tracking_mode_is_first tracking_state"
  by (simp add: tracking_state_def dispatch on_enable_tracking_mode_command_def emit_def Let_def)

lemma tracking_state2_flags:
  "tracking_mode_enabled tracking_state2 \<and> \<not> tracking_mode_is_first tracking_state2 \<and>
   tracking_mode_position tracking_state2 = 3 \<and> tracking_mode_velocity tracking_state2 = 0 \<and>
   tracking_mode_position_start tracking_state2 = 3 \<and>
   tracking_mode_last_update_t tracking_state2 = 10 \<and>
   tracking_mode_first_update_t tracking_state2 = 10"
  using tracking_state_flags
  by (simp add: tracking_state2_def tracking_defs emit_def Let_def example_env_def)

lemma tracking_state3_fields:
  "tracking_mode_enabled tracking_state3 \<and> \<not> tracking_mode_is_first tracking_state3 \<and>
   tracking_mode_position tracking_state3 = 4 \<and> tracking_mode_velocity tracking_state3 = 7 \<and>
   tracking_mode_position_start tracking_state3 = 3 \<and>
   tracking_mode_last_update_t tracking_state3 = 12 \<and>
   tracking_mode_first_update_t tracking_state3 = 10"
  using tracking_state2_flags
  by (simp add: tracking_state3_def tracking_defs emit_def Let_def example_env_def later_env_def
      tracking_mode_gain_def)

text \<open>
  C7: when tracking is enabled and \<open>tracking_mode_is_first\<close> is set, as it is after
  \<open>enable_tracking_mode\<close>, a sample makes one driver call, \<open>get_position\<close>, and no
  \<open>run_with_feedback\<close>; its answer becomes \<open>position_start\<close> and \<open>position\<close>, the
  velocity becomes \<open>0\<close>, \<open>first_update_t\<close> and \<open>last_update_t\<close> become the current
  time, and the one message published carries \<open>position_start\<close> as predicted position.
\<close>

theorem tracking_first_sample:
  assumes "tracking_mode_enabled st" "tracking_mode_is_first st"
  shows "(let st' = on_tracking_data_callback msg e st
          in actuator_calls (new_events st st') = [A_get_position] \<and>
             tracking_mode_position_start st' = dev_position e \<and>
             tracking_mode_position st' = tracking_mode_position_start st' \<and>
             tracking_mode_velocity st' = 0 \<and>
             tracking_mode_first_update_t st' = get_time e \<and>
             tracking_mode_last_update_t st' = get_time e \<and>
             \<not> tracking_mode_is_first st' \<and>
             tracking_mode_enabled st' \<and>
             published (new_events st st') =
               [(0, tracking_mode_position st', tracking_mode_position_start st', 0)])"
  using assms
  by (simp add: tracking_defs emit_def new_events_def Let_def)

theorem tracking_first_sample_witness:
  "(let st' = on_tracking_data_callback example_sample example_env tracking_state
    in actuator_calls (new_events tracking_state st') = [A_get_position] \<and>
       tracking_mode_position_start st' = 3 \<and>
       tracking_mode_position st' = 3 \<and>
       tracking_mode_velocity st' = 0 \<and>
       tracking_mode_first_update_t st' = 10 \<and>
       tracking_mode_last_update_t st' = 10 \<and>
       published (new_events tracking_state st') = [(0, 3, 3, 0)])"
  using tracking_first_sample [of tracking_state example_sample example_env] tracking_state_flags
  by (simp add: Let_def example_env_def)

text \<open>
  C6: when tracking is enabled and the sample is not the first, with
  \<open>dt = now - last_update_t\<close>, \<open>predicted = position + dt * velocity\<close>,
  \<open>error = sample.position - (predicted - position_start)\<close> and
  \<open>command_velocity = gain * error + sample.velocity\<close>, where \<open>gain = 5\<close>: the callback
  calls \<open>run_with_feedback(command_velocity)\<close> once and makes no other driver call, then
  writes the measured value to \<open>position\<close>, \<open>command_velocity\<close> to \<open>velocity\<close> and
  \<open>now\<close> to \<open>last_update_t\<close>, and publishes
  \<open>(last_update_t - first_update_t, position, predicted, 0)\<close>. For a sample with position
  and velocity \<open>0\<close> the driver receives \<open>5 * error\<close>.
\<close>

theorem tracking_update_step:
  assumes "tracking_mode_enabled st" "\<not> tracking_mode_is_first st"
  shows "(let dt = get_time e - tracking_mode_last_update_t st;
              predicted = tracking_mode_position st + dt * tracking_mode_velocity st;
              error = msg_position msg - (predicted - tracking_mode_position_start st);
              command_velocity = tracking_mode_gain * error + msg_velocity msg;
              st' = on_tracking_data_callback msg e st
          in tracking_mode_gain = 5 \<and>
             new_events st st' =
               [Lock_acquire, Read F_tracking_mode_enabled, Lock_release,
                Read F_tracking_mode_enabled, Read F_is_first, Read F_last_update_t,
                Read F_position, Read F_velocity, Read F_position_start,
                Actuator (A_run_with_feedback command_velocity),
                Write F_position, Write F_velocity, Write F_last_update_t,
                Read F_last_update_t, Read F_first_update_t, Read F_position,
                Publish (tracking_mode_last_update_t st' - tracking_mode_first_update_t st')
                  (tracking_mode_position st') predicted 0] \<and>
             actuator_calls (new_events st st') = [A_run_with_feedback command_velocity] \<and>
             tracking_mode_position st' = dev_feedback e command_velocity \<and>
             tracking_mode_velocity st' = command_velocity \<and>
             tracking_mode_last_update_t st' = get_time e \<and>
             tracking_mode_first_update_t st' = tracking_mode_first_update_t st \<and>
             tracking_mode_position_start st' = tracking_mode_position_start st \<and>
             (msg_position msg = 0 \<and> msg_velocity msg = 0 \<longrightarrow>
                actuator_calls (new_events st st') = [A_run_with_feedback (5 * error)]))"
  using assms
  by (simp add: tracking_defs emit_def new_events_def Let_def tracking_mode_gain_def)

theorem tracking_update_step_witness:
  "tracking_mode_enabled tracking_state3 \<and> \<not> tracking_mode_is_first tracking_state3 \<and>
   (let st' = on_tracking_data_callback example_sample last_env tracking_state3
    in actuator_calls (new_events tracking_state3 st') = [A_run_with_feedback (5 * (- 8))] \<and>
       tracking_mode_position st' = 4 \<and>
       tracking_mode_velocity st' = - 40 \<and>
       tracking_mode_last_update_t st' = 13 \<and>
       published (new_events tracking_state3 st') = [(3, 4, 11, 0)])"
  using tracking_update_step [of tracking_state3 last_env example_sample] tracking_state3_fields
  by (simp add: Let_def example_env_def last_env_def example_sample_def tracking_mode_gain_def)

text \<open>
  C10: \<open>enable_tracking_mode\<close> answers success with an empty message in every state of the
  node, also when tracking is already enabled. Under the lock it commands velocity \<open>0\<close>,
  switches to the \<open>max\<close> move mode, then sets \<open>tracking_mode_enabled\<close> and
  \<open>tracking_mode_is_first\<close>. The next sample therefore reads the driver's position into
  \<open>position_start\<close> again and starts the loop anew.
\<close>

theorem enable_tracking_mode_restarts:
  "(case command_srv_callback ''enable_tracking_mode'' args_dict e st of (r, st') \<Rightarrow>
      r = Inr ok_resp \<and> tracking_mode_enabled st' \<and> tracking_mode_is_first st' \<and>
      new_events st st' =
        [Lock_acquire, Actuator (A_run (JNum 0)), Actuator A_set_move_mode_to_max,
         Write F_tracking_mode_enabled, Write F_is_first, Lock_release] \<and>
      (let st'' = on_tracking_data_callback msg e' st'
       in actuator_calls (new_events st' st'') = [A_get_position] \<and>
          tracking_mode_position_start st'' = dev_position e' \<and>
          tracking_mode_position st'' = dev_position e' \<and>
          tracking_mode_velocity st'' = 0 \<and>
          tracking_mode_first_update_t st'' = get_time e' \<and>
          tracking_mode_last_update_t st'' = get_time e' \<and>
          \<not> tracking_mode_is_first st'' \<and>
          published (new_events st' st'') = [(0, dev_position e', dev_position e', 0)]))"
  by (simp add: dispatch on_enable_tracking_mode_command_def tracking_defs emit_def
      new_events_def Let_def)

theorem enable_tracking_mode_restarts_witness:
  "tracking_mode_enabled tracking_state3 \<and> \<not> tracking_mode_is_first tracking_state3 \<and>
   tracking_mode_velocity tracking_state3 = 7 \<and>
   (case command_srv_callback ''enable_tracking_mode'' Map.empty last_env tracking_state3 of
      (r, st') \<Rightarrow>
      r = Inr ok_resp \<and> tracking_mode_enabled st' \<and> tracking_mode_is_first st' \<and>
      (let st'' = on_tracking_data_callback example_sample last_env st'
       in actuator_calls (new_events st' st'') = [A_get_position] \<and>
          tracking_mode_position_start st'' = 3 \<and>
          tracking_mode_position st'' = 3 \<and>
          tracking_mode_velocity st'' = 0 \<and>
          tracking_mode_first_update_t st'' = 13 \<and>
          tracking_mode_last_update_t st'' = 13))"
  using enable_tracking_mode_restarts [where args_dict = Map.empty and e = last_env
      and st = tracking_state3 and msg = example_sample and e' = last_env]
    tracking_state3_fields
  by (simp add: Let_def last_env_def example_env_def split: prod.splits)

section \<open>The lock\<close>

lemma command_cases:
  "command_srv_table c = None \<or> c = ''run'' \<or> c = ''enable'' \<or> c = ''release'' \<or>
   c = ''is_busy'' \<or> c = ''move_to'' \<or> c = ''soft_stop'' \<or> c = ''set_position'' \<or>
   c = ''get_position'' \<or> c = ''set_move_mode'' \<or> c = ''get_params'' \<or>
   c = ''print_params'' \<or> c = ''sinusoid'' \<or> c = ''run_trajectory'' \<or>
   c = ''enable_tracking_mode'' \<or> c = ''disable_tracking_mode''"
  by (simp add: command_srv_table_def)

lemma unknown_not_tracking:
  "command_srv_table c = None \<Longrightarrow>
     c \<noteq> ''enable_tracking_mode'' \<and> c \<noteq> ''disable_tracking_mode'' \<and>
     c \<noteq> ''enable'' \<and> c \<noteq> ''release''"
  by (auto simp add: command_srv_table_def)

lemma sinusoid_events:
  "new_events st (snd (on_sinusoid_command args_dict e st)) = [] \<or>
   (\<exists>th. new_events st (snd (on_sinusoid_command args_dict e st)) =
      [Lock_acquire, Write F_running_motion_cmd, Lock_release, Thread_start th])"
  by (simp add: on_sinusoid_command_def emit_def new_events_def Let_def split: prod.splits)

lemma run_trajectory_events:
  "new_events st (snd (on_run_trajectory_command args_dict e st)) = [] \<or>
   (\<exists>th. new_events st (snd (on_run_trajectory_command args_dict e st)) =
      [Lock_acquire, Write F_running_motion_cmd, Lock_release, Thread_start th])"
  by (simp add: on_run_trajectory_command_def emit_def new_events_def Let_def
      split: prod.splits option.splits sum.splits)

lemma lock_discipline_motion:
  assumes "evs = [] \<or>
     (\<exists>th. evs = [Lock_acquire, Write F_running_motion_cmd, Lock_release, Thread_start th])"
    and "c = ''sinusoid'' \<or> c = ''run_trajectory''"
  shows "lock_discipline c evs"
proof -
  have nt: "\<not> (c = ''enable_tracking_mode'' \<or> c = ''disable_tracking_mode'')"
    "\<not> (c = ''enable'' \<or> c = ''release'')"
    using assms(2) by (elim disjE, simp_all)+
  from assms(1) show ?thesis
  proof (elim disjE exE)
    assume "evs = []"
    then show ?thesis using nt by (simp add: lock_discipline_def)
  next
    fix th
    assume "evs = [Lock_acquire, Write F_running_motion_cmd, Lock_release, Thread_start th]"
    then show ?thesis using nt by (simp add: lock_discipline_def)
  qed
qed

lemma lock_discipline_commands:
  "lock_discipline c (new_events st (snd (command_srv_callback c args_dict e st)))"
  using command_cases [of c]
proof (elim disjE)
  assume n: "command_srv_table c = None"
  then have "command_srv_callback c args_dict e st = (Inr (fail_resp ''unknown command''), st)"
    by (simp add: command_srv_callback_def)
  then show ?thesis using unknown_not_tracking [OF n]
    by (simp add: lock_discipline_def)
next
  assume "c = ''run''" then show ?thesis
    by (simp add: dispatch on_run_command_def lock_discipline_def emit_def new_events_def
        split: option.splits)
next
  assume "c = ''enable''" then show ?thesis
    by (simp add: dispatch on_enable_command_def enable_def lock_discipline_def emit_def
        new_events_def)
next
  assume "c = ''release''" then show ?thesis
    by (simp add: dispatch on_release_command_def release_def lock_discipline_def emit_def
        new_events_def)
next
  assume "c = ''is_busy''" then show ?thesis
    by (simp add: dispatch on_is_busy_command_def lock_discipline_def emit_def new_events_def)
next
  assume "c = ''move_to''" then show ?thesis
    by (simp add: dispatch on_move_to_command_def lock_discipline_def emit_def new_events_def
        split: option.splits)
next
  assume "c = ''soft_stop''" then show ?thesis
    by (simp add: dispatch on_soft_stop_command_def lock_discipline_def emit_def
        new_events_def)
next
  assume "c = ''set_position''" then show ?thesis
    by (simp add: dispatch on_set_position_command_def lock_discipline_def emit_def
        new_events_def split: option.splits)
next
  assume "c = ''get_position''" then show ?thesis
    by (simp add: dispatch on_get_position_command_def lock_discipline_def emit_def
        new_events_def)
next
  assume "c = ''set_move_mode''" then show ?thesis
    by (simp add: dispatch on_set_move_mode_command_def lock_discipline_def
        split: option.splits)
next
  assume "c = ''get_params''" then show ?thesis
    by (simp add: dispatch on_get_params_command_def lock_discipline_def emit_def
        new_events_def)
next
  assume "c = ''print_params''" then show ?thesis
    by (simp add: dispatch on_print_params_command_def lock_discipline_def emit_def
        new_events_def)
next
  assume "c = ''sinusoid''" then show ?thesis
    using sinusoid_events [of st args_dict e]
      lock_discipline_motion [of "new_events st (snd (on_sinusoid_command args_dict e st))" c]
    by (simp add: dispatch)
next
  assume "c = ''run_trajectory''" then show ?thesis
    using run_trajectory_events [of st args_dict e]
      lock_discipline_motion
        [of "new_events st (snd (on_run_trajectory_command args_dict e st))" c]
    by (simp add: dispatch)
next
  assume "c = ''enable_tracking_mode''" then show ?thesis
    by (simp add: dispatch on_enable_tracking_mode_command_def lock_discipline_def emit_def
        new_events_def Let_def)
next
  assume "c = ''disable_tracking_mode''" then show ?thesis
    by (simp add: dispatch on_disable_tracking_mode_command_def lock_discipline_def emit_def
        new_events_def Let_def)
qed

text \<open>
  C9, as the code has it. In every dispatch of a command, \<open>tracking_mode_enabled\<close>,
  \<open>running_motion_cmd\<close> and the scratch attributes are never read or written outside the
  lock; \<open>enabled_flag\<close> is written outside it by \<open>enable\<close> and by \<open>release\<close>, and
  that is the only access any command makes outside the lock. The driver is called while
  the lock is held by \<open>enable_tracking_mode\<close> and \<open>disable_tracking_mode\<close> and by no
  other command, and the lock is never acquired while it is held. The completion closure
  of a motion writes \<open>running_motion_cmd\<close> inside the lock and does nothing else. The
  tracking callback calls the driver outside the lock only and, when tracking is enabled,
  accesses all six scratch attributes outside the lock. The node has this one lock, so no
  two locks are ever nested.
\<close>

theorem lock_discipline_of_handlers:
  "lock_discipline c (new_events st (snd (command_srv_callback c args_dict e st))) \<and>
   unlocked_accesses False
     (new_events st (snd (command_srv_callback ''enable'' args_dict e st))) = [F_enabled_flag] \<and>
   unlocked_accesses False
     (new_events st (snd (command_srv_callback ''release'' args_dict e st))) = [F_enabled_flag] \<and>
   new_events st (motion_done_callback st) =
     [Lock_acquire, Write F_running_motion_cmd, Lock_release] \<and>
   unlocked_accesses False (new_events st (motion_done_callback st)) = [] \<and>
   locked_calls False (new_events st (motion_done_callback st)) = [] \<and>
   nested_acquires False (new_events st (motion_done_callback st)) = 0 \<and>
   locked_calls False (new_events st (on_tracking_data_callback msg e st)) = [] \<and>
   nested_acquires False (new_events st (on_tracking_data_callback msg e st)) = 0 \<and>
   (tracking_mode_enabled st \<longrightarrow>
      set (unlocked_accesses False (new_events st (on_tracking_data_callback msg e st)))
        - {F_tracking_mode_enabled} =
      {F_is_first, F_first_update_t, F_last_update_t, F_position, F_velocity,
       F_position_start})"
proof -
  have en: "unlocked_accesses False
     (new_events st (snd (command_srv_callback ''enable'' args_dict e st))) = [F_enabled_flag]"
    by (simp add: dispatch on_enable_command_def enable_def emit_def new_events_def)
  have re: "unlocked_accesses False
     (new_events st (snd (command_srv_callback ''release'' args_dict e st))) = [F_enabled_flag]"
    by (simp add: dispatch on_release_command_def release_def emit_def new_events_def)
  have cb: "new_events st (motion_done_callback st) =
     [Lock_acquire, Write F_running_motion_cmd, Lock_release]"
    by (simp add: motion_done_callback_def emit_def new_events_def)
  have tr: "locked_calls False (new_events st (on_tracking_data_callback msg e st)) = [] \<and>
   nested_acquires False (new_events st (on_tracking_data_callback msg e st)) = 0"
    by (simp add: tracking_defs emit_def new_events_def Let_def)
  have sc: "set (unlocked_accesses False (new_events st (on_tracking_data_callback msg e st)))
        - {F_tracking_mode_enabled} =
      {F_is_first, F_first_update_t, F_last_update_t, F_position, F_velocity,
       F_position_start}" if "tracking_mode_enabled st"
  proof (cases "tracking_mode_is_first st")
    case True
    with that show ?thesis
      by (simp add: tracking_defs emit_def new_events_def Let_def insert_Diff_if insert_commute)
  next
    case False
    with that show ?thesis
      by (simp add: tracking_defs emit_def new_events_def Let_def insert_Diff_if insert_commute)
  qed
  show ?thesis using lock_discipline_commands [of c st args_dict e] en re tr sc
    by (simp add: cb)
qed

theorem lock_discipline_of_handlers_witness:
  "tracking_mode_enabled tracking_state3 \<and>
   lock_discipline ''disable_tracking_mode''
     (new_events tracking_state3
        (snd (command_srv_callback ''disable_tracking_mode'' Map.empty last_env tracking_state3))) \<and>
   locked_calls False
     (new_events tracking_state3
        (snd (command_srv_callback ''disable_tracking_mode'' Map.empty last_env tracking_state3)))
     = [A_set_move_mode_to_jog, A_run (JNum 0)] \<and>
   unlocked_accesses False
     (new_events tracking_state3
        (snd (command_srv_callback ''enable'' Map.empty last_env tracking_state3)))
     = [F_enabled_flag] \<and>
   locked_calls False
     (new_events tracking_state3 (on_tracking_data_callback example_sample last_env tracking_state3))
     = [] \<and>
   set (unlocked_accesses False
     (new_events tracking_state3
        (on_tracking_data_callback example_sample last_env tracking_state3)))
     - {F_tracking_mode_enabled} =
   {F_is_first, F_first_update_t, F_last_update_t, F_position, F_velocity, F_position_start}"
  using lock_discipline_of_handlers [where c = "''disable_tracking_mode''" and st = tracking_state3
      and args_dict = Map.empty and e = last_env and msg = example_sample]
    tracking_state3_fields
  by (simp add: dispatch on_disable_tracking_mode_command_def emit_def new_events_def Let_def)

text \<open>
  C9 as stated fails: the tracking callback tests \<open>tracking_mode_enabled\<close> again after
  releasing the lock and reads and writes \<open>tracking_mode_is_first\<close> without it;
  \<open>release\<close> writes \<open>enabled_flag\<close> without it; \<open>disable_tracking_mode\<close> makes its
  two driver calls while holding it.
\<close>

theorem lock_discipline_violations:
  "F_is_first \<in> set (unlocked_accesses False
      (new_events tracking_state
         (on_tracking_data_callback example_sample example_env tracking_state))) \<and>
   F_tracking_mode_enabled \<in> set (unlocked_accesses False
      (new_events tracking_state
         (on_tracking_data_callback example_sample example_env tracking_state))) \<and>
   F_enabled_flag \<in> set (unlocked_accesses False
      (new_events node_init
         (snd (command_srv_callback ''release'' Map.empty example_env node_init)))) \<and>
   locked_calls False
      (new_events tracking_state
         (snd (command_srv_callback ''disable_tracking_mode'' Map.empty example_env
                tracking_state)))
     = [A_set_move_mode_to_jog, A_run (JNum 0)]"
  using tracking_state_flags
  by (simp add: tracking_defs dispatch on_release_command_def release_def
      on_disable_tracking_mode_command_def emit_def new_events_def Let_def)

end
